theory Spec2Isabelle
  imports Complex_Main "HOL-Library.Multiset" "HOL-Library.Char_ord" "HOL-Library.List_Lexorder"
begin

section \<open>Data model\<close>

text \<open>
  The expense tracker keeps one table \<^verbatim>\<open>expenses\<close> with the columns id, date, amount,
  category and description. A calendar date is modelled by its day number, an amount by an
  exact rational (the table's decimal value; rounding of binary floats is outside the
  model), text by \<^typ>\<open>string\<close>.
\<close>

type_synonym date = int

record db_row =
  row_id :: int
  row_date :: date
  row_amount :: rat
  row_category :: string
  row_description :: string

text \<open>
  A pandas DataFrame is a list of column labels and a list of rows. The rows of the frames
  that \<^verbatim>\<open>load_data\<close> returns have the four fields below, the rows of
  \<^verbatim>\<open>get_expenses_with_ids\<close> have the field \<open>ID\<close> besides.
\<close>

record expense =
  Date :: date
  Amount :: rat
  Category :: string
  Description :: string

record expense_with_id = expense +
  ID :: int

record 'r dataframe =
  columns :: "string list"
  rows :: "'r list"

text \<open>\<^verbatim>\<open>df.empty\<close>: an axis of the frame has length zero.\<close>

definition df_empty :: "'r dataframe \<Rightarrow> bool" where
  "df_empty df = (columns df = [] \<or> rows df = [])"

text \<open>\<^verbatim>\<open>len(df)\<close>: the number of rows.\<close>

definition len :: "'r dataframe \<Rightarrow> int" where
  "len df = int (length (rows df))"

section \<open>The database engine\<close>

text \<open>
  The engine is the only state: the table in its physical order, the next value of the id
  sequence, and the statements sent to the database so far (the last one at the end), which
  makes ``no store call is made'' a statement about the state. A statement is recorded
  when it is sent, whether the database then serves it or raises.
\<close>

datatype statement =
    SelectAll
  | SelectWithIds
  | Insert string rat string string
  | Delete int
  | Truncate
  | Append "string list" "expense list"

record engine =
  expenses :: "db_row list"
  next_id :: int
  statements :: "statement list"

datatype exn = ValueError | DatabaseError | IndexError | KeyError

text \<open>
  A call returns a value or raises, and leaves an engine behind in both cases.
\<close>

type_synonym 'a outcome = "(exn + 'a) \<times> engine"

definition send :: "statement \<Rightarrow> engine \<Rightarrow> engine" where
  "send st eng = eng\<lparr>statements := statements eng @ [st]\<rparr>"

text \<open>
  \<^verbatim>\<open>ORDER BY date DESC\<close>. SQL leaves the order of rows with equal dates open; the model
  keeps them in the table's order.
\<close>

definition order_by_date_desc :: "db_row list \<Rightarrow> db_row list" where
  "order_by_date_desc rs = sort_key (\<lambda>r. - row_date r) rs"

text \<open>
  Every database call takes a flag \<open>ok\<close>: whether the database serves this call
  (\<open>True\<close>) or the call raises (connection lost, statement rejected). It stands for
  everything the program cannot control.

  \<^verbatim>\<open>pd.read_sql("SELECT * FROM expenses ORDER BY date DESC", engine)\<close>:
\<close>

definition read_sql_all :: "bool \<Rightarrow> engine \<Rightarrow> db_row dataframe outcome" where
  "read_sql_all ok eng =
     (if ok
      then Inr \<lparr>columns = [''id'', ''date'', ''amount'', ''category'', ''description''],
                rows = order_by_date_desc (expenses eng)\<rparr>
      else Inl DatabaseError,
      send SelectAll eng)"

text \<open>\<^verbatim>\<open>str.lower()\<close>, on ASCII.\<close>

definition lower_char :: "char \<Rightarrow> char" where
  "lower_char c =
     (if CHR ''A'' \<le> c \<and> c \<le> CHR ''Z'' then char_of (of_char c + (32 :: nat)) else c)"

definition lower :: "string \<Rightarrow> string" where
  "lower s = map lower_char s"

text \<open>
  The database is PostgreSQL (the docstring of \<^verbatim>\<open>DataHandler\<close> says so), and PostgreSQL
  folds an identifier that is not quoted to lower case, the alias after \<^verbatim>\<open>as\<close> too.
\<close>

definition fold_identifier :: "string \<Rightarrow> string" where
  "fold_identifier name = lower name"

text \<open>
  \<^verbatim>\<open>pd.read_sql("SELECT id as ID, date as Date, amount as Amount, category as Category,
  description as Description FROM expenses ORDER BY date DESC", engine)\<close>. The aliases are
  not quoted, so the labels of the frame are the folded ones. In a row, the field \<open>ID\<close> is
  the value of the first column, whatever label the frame has for it.
\<close>

definition with_id :: "db_row \<Rightarrow> expense_with_id" where
  "with_id r = \<lparr>Date = row_date r, Amount = row_amount r, Category = row_category r,
               Description = row_description r, ID = row_id r\<rparr>"

definition read_sql_with_ids :: "bool \<Rightarrow> engine \<Rightarrow> expense_with_id dataframe outcome" where
  "read_sql_with_ids ok eng =
     (if ok
      then Inr \<lparr>columns = map fold_identifier
                            [''ID'', ''Date'', ''Amount'', ''Category'', ''Description''],
                rows = map with_id (order_by_date_desc (expenses eng))\<rparr>
      else Inl DatabaseError,
      send SelectWithIds eng)"

text \<open>
  \<^verbatim>\<open>INSERT INTO expenses (date, amount, category, description) VALUES (...)\<close> and its commit.
  The date arrives as text; \<open>to_date\<close> is the database's conversion of text to a date, which
  rejects text that is no date. The new row gets the next id.
\<close>

definition exec_insert ::
  "(string \<Rightarrow> date option) \<Rightarrow> bool \<Rightarrow> string \<Rightarrow> rat \<Rightarrow> string \<Rightarrow> string \<Rightarrow> engine \<Rightarrow> unit outcome"
where
  "exec_insert to_date ok date amount category description eng =
     (let eng1 = send (Insert date amount category description) eng in
      case to_date date of
        None \<Rightarrow> (Inl DatabaseError, eng1)
      | Some d \<Rightarrow>
          if ok
          then (Inr (),
                eng1\<lparr>expenses := expenses eng1 @
                        [\<lparr>row_id = next_id eng1, row_date = d, row_amount = amount,
                          row_category = category, row_description = description\<rparr>],
                      next_id := next_id eng1 + 1\<rparr>)
          else (Inl DatabaseError, eng1))"

text \<open>\<^verbatim>\<open>DELETE FROM expenses WHERE id = :id\<close> and its commit.\<close>

definition exec_delete :: "bool \<Rightarrow> int \<Rightarrow> engine \<Rightarrow> unit outcome" where
  "exec_delete ok expense_id eng =
     (let eng1 = send (Delete expense_id) eng in
      if ok
      then (Inr (), eng1\<lparr>expenses := filter (\<lambda>r. row_id r \<noteq> expense_id) (expenses eng1)\<rparr>)
      else (Inl DatabaseError, eng1))"

text \<open>\<^verbatim>\<open>TRUNCATE TABLE expenses\<close> and its commit; the id sequence goes on.\<close>

definition exec_truncate :: "bool \<Rightarrow> engine \<Rightarrow> unit outcome" where
  "exec_truncate ok eng =
     (let eng1 = send Truncate eng in
      if ok then (Inr (), eng1\<lparr>expenses := []\<rparr>) else (Inl DatabaseError, eng1))"

text \<open>
  \<^verbatim>\<open>df.to_sql('expenses', engine, if_exists='append', index=False)\<close>: all rows of the frame
  are appended in one transaction, or none is.
\<close>

fun new_rows :: "int \<Rightarrow> expense list \<Rightarrow> db_row list" where
  "new_rows n [] = []"
| "new_rows n (r # rs) =
     \<lparr>row_id = n, row_date = Date r, row_amount = Amount r, row_category = Category r,
      row_description = Description r\<rparr> # new_rows (n + 1) rs"

definition to_sql :: "bool \<Rightarrow> expense dataframe \<Rightarrow> engine \<Rightarrow> unit outcome" where
  "to_sql ok df eng =
     (let eng1 = send (Append (columns df) (rows df)) eng in
      if ok
      then (Inr (),
            eng1\<lparr>expenses := expenses eng1 @ new_rows (next_id eng1) (rows df),
                  next_id := next_id eng1 + int (length (rows df))\<rparr>)
      else (Inl DatabaseError, eng1))"

section \<open>Python idioms\<close>

text \<open>
  \<^verbatim>\<open>try: ... except Exception as e: print(...); return v\<close>: whatever the body raises is
  turned into the value \<open>v\<close>. Printing is not modelled.
\<close>

definition except_return :: "'a \<Rightarrow> 'a outcome \<Rightarrow> 'a outcome" where
  "except_return v r = (case r of (Inl e, eng) \<Rightarrow> (Inr v, eng) | (Inr x, eng) \<Rightarrow> (Inr x, eng))"

text \<open>
  \<^verbatim>\<open>not x\<close> for an optional string and an optional number: \<^verbatim>\<open>None\<close>, the empty string
  and zero are false.
\<close>

definition not_str :: "string option \<Rightarrow> bool" where
  "not_str x = (case x of None \<Rightarrow> True | Some s \<Rightarrow> s = [])"

definition not_num :: "rat option \<Rightarrow> bool" where
  "not_num x = (case x of None \<Rightarrow> True | Some a \<Rightarrow> a = 0)"

text \<open>\<^verbatim>\<open>float(amount)\<close> of a number is that number.\<close>

definition float :: "rat \<Rightarrow> rat" where
  "float a = a"

text \<open>
  \<^verbatim>\<open>df.iloc[index]\<close>: a negative position counts from the end, a position outside the
  frame raises.
\<close>

definition iloc :: "'r dataframe \<Rightarrow> int \<Rightarrow> exn + 'r" where
  "iloc df index =
     (if 0 \<le> index \<and> index < len df then Inr (rows df ! nat index)
      else if - len df \<le> index \<and> index < 0 then Inr (rows df ! nat (len df + index))
      else Inl IndexError)"

text \<open>
  \<^verbatim>\<open>row['ID']\<close>, for a row \<^verbatim>\<open>df.iloc[index]\<close> of a listing: the row is indexed by
  the labels of its frame, and the lookup raises when none of them is \<^verbatim>\<open>ID\<close>. When the
  frame has the label, the value under it is the identifier.
\<close>

definition getitem_ID :: "expense_with_id dataframe \<Rightarrow> expense_with_id \<Rightarrow> exn + int" where
  "getitem_ID df row = (if ''ID'' \<in> set (columns df) then Inr (ID row) else Inl KeyError)"

text \<open>\<^verbatim>\<open>df.rename(columns=d)\<close>: a label that is a key of \<open>d\<close> is replaced.\<close>

definition rename :: "(string \<times> string) list \<Rightarrow> 'r dataframe \<Rightarrow> 'r dataframe" where
  "rename d df =
     df\<lparr>columns := map (\<lambda>c. case map_of d c of None \<Rightarrow> c | Some c' \<Rightarrow> c') (columns df)\<rparr>"

text \<open>\<^verbatim>\<open>df[mask]\<close>: the rows where the mask holds, in their order.\<close>

definition select_rows :: "('r \<Rightarrow> bool) \<Rightarrow> 'r dataframe \<Rightarrow> 'r dataframe" where
  "select_rows p df = df\<lparr>rows := filter p (rows df)\<rparr>"

section \<open>DataHandler\<close>

text \<open>
  \<^verbatim>\<open>df[['date', 'amount', 'category', 'description']]\<close> keeps the four columns; a frame
  that is not projected keeps its labels. The table has an id column
  (\<^verbatim>\<open>delete_expense_by_id\<close> selects on it), so the test \<^verbatim>\<open>'id' in df.columns\<close> of
  \<^verbatim>\<open>load_data\<close> holds for every frame the query returns.
\<close>

definition without_id :: "db_row \<Rightarrow> expense" where
  "without_id r = \<lparr>Date = row_date r, Amount = row_amount r, Category = row_category r,
                  Description = row_description r\<rparr>"

definition select_columns :: "db_row dataframe \<Rightarrow> expense dataframe" where
  "select_columns df =
     \<lparr>columns = [''date'', ''amount'', ''category'', ''description''],
      rows = map without_id (rows df)\<rparr>"

definition rename_dict :: "(string \<times> string) list" where
  "rename_dict = [(''date'', ''Date''), (''amount'', ''Amount''), (''category'', ''Category''),
                  (''description'', ''Description'')]"

definition empty_data :: "expense dataframe" where
  "empty_data = \<lparr>columns = [''Date'', ''Amount'', ''Category'', ''Description''], rows = []\<rparr>"

definition load_data_try :: "bool \<Rightarrow> engine \<Rightarrow> expense dataframe outcome" where
  "load_data_try ok eng =
     (case read_sql_all ok eng of
        (Inl e, eng1) \<Rightarrow> (Inl e, eng1)
      | (Inr df, eng1) \<Rightarrow>
          let df = (if ''id'' \<in> set (columns df) then select_columns df
                    else \<lparr>columns = columns df, rows = map without_id (rows df)\<rparr>)
          in (Inr (rename rename_dict df), eng1))"

definition load_data :: "bool \<Rightarrow> engine \<Rightarrow> expense dataframe outcome" where
  "load_data ok eng = except_return empty_data (load_data_try ok eng)"

text \<open>
  \<^verbatim>\<open>save_data\<close>: the loop over the expected columns raises at the first one the frame
  lacks; then the table is truncated and the truncation committed; then the frame is
  appended. The two database calls have a flag each.
\<close>

definition expected_columns :: "string list" where
  "expected_columns = [''Date'', ''Amount'', ''Category'', ''Description'']"

fun check_columns :: "string list \<Rightarrow> string list \<Rightarrow> exn + unit" where
  "check_columns [] cols = Inr ()"
| "check_columns (col # rest) cols =
     (if col \<notin> set cols then Inl ValueError else check_columns rest cols)"

definition save_data_try :: "bool \<Rightarrow> bool \<Rightarrow> expense dataframe \<Rightarrow> engine \<Rightarrow> bool outcome" where
  "save_data_try truncate_ok append_ok df eng =
     (case check_columns expected_columns (columns df) of
        Inl e \<Rightarrow> (Inl e, eng)
      | Inr _ \<Rightarrow>
          let df_sql = df\<lparr>columns := map lower (columns df)\<rparr> in
          (case exec_truncate truncate_ok eng of
             (Inl e, eng1) \<Rightarrow> (Inl e, eng1)
           | (Inr _, eng1) \<Rightarrow>
               (case to_sql append_ok df_sql eng1 of
                  (Inl e, eng2) \<Rightarrow> (Inl e, eng2)
                | (Inr _, eng2) \<Rightarrow> (Inr True, eng2))))"

definition save_data :: "bool \<Rightarrow> bool \<Rightarrow> expense dataframe \<Rightarrow> engine \<Rightarrow> bool outcome" where
  "save_data truncate_ok append_ok df eng =
     except_return False (save_data_try truncate_ok append_ok df eng)"

text \<open>\<^verbatim>\<open>DataHandler.add_expense\<close>\<close>

definition data_handler_add_expense_try ::
  "(string \<Rightarrow> date option) \<Rightarrow> bool \<Rightarrow> string \<Rightarrow> rat \<Rightarrow> string \<Rightarrow> string \<Rightarrow> engine \<Rightarrow> bool outcome"
where
  "data_handler_add_expense_try to_date ok date amount category description eng =
     (case exec_insert to_date ok date amount category description eng of
        (Inl e, eng1) \<Rightarrow> (Inl e, eng1)
      | (Inr _, eng1) \<Rightarrow> (Inr True, eng1))"

definition data_handler_add_expense ::
  "(string \<Rightarrow> date option) \<Rightarrow> bool \<Rightarrow> string \<Rightarrow> rat \<Rightarrow> string \<Rightarrow> string \<Rightarrow> engine \<Rightarrow> bool outcome"
where
  "data_handler_add_expense to_date ok date amount category description eng =
     except_return False
       (data_handler_add_expense_try to_date ok date amount category description eng)"

definition delete_expense_by_id_try :: "bool \<Rightarrow> int \<Rightarrow> engine \<Rightarrow> bool outcome" where
  "delete_expense_by_id_try ok expense_id eng =
     (case exec_delete ok expense_id eng of
        (Inl e, eng1) \<Rightarrow> (Inl e, eng1)
      | (Inr _, eng1) \<Rightarrow> (Inr True, eng1))"

definition delete_expense_by_id :: "bool \<Rightarrow> int \<Rightarrow> engine \<Rightarrow> bool outcome" where
  "delete_expense_by_id ok expense_id eng =
     except_return False (delete_expense_by_id_try ok expense_id eng)"

section \<open>ExpenseManager\<close>

text \<open>
  \<^verbatim>\<open>ExpenseManager.add_expense\<close>. The arguments are the documented ones, a string, a
  number and two strings, each of which may be \<^verbatim>\<open>None\<close>.
\<close>

definition add_expense ::
  "(string \<Rightarrow> date option) \<Rightarrow> bool \<Rightarrow> string option \<Rightarrow> rat option \<Rightarrow> string option \<Rightarrow>
   string option \<Rightarrow> engine \<Rightarrow> bool outcome"
where
  "add_expense to_date ok date amount category description eng =
     (if not_str date \<or> not_num amount \<or> not_str category \<or> not_str description
      then (Inr False, eng)
      else data_handler_add_expense to_date ok
             (the date) (float (the amount)) (the category) (the description) eng)"

definition get_expenses :: "bool \<Rightarrow> engine \<Rightarrow> expense dataframe outcome" where
  "get_expenses ok eng = load_data ok eng"

definition empty_data_with_ids :: "expense_with_id dataframe" where
  "empty_data_with_ids =
     \<lparr>columns = [''ID'', ''Date'', ''Amount'', ''Category'', ''Description''], rows = []\<rparr>"

definition get_expenses_with_ids :: "bool \<Rightarrow> engine \<Rightarrow> expense_with_id dataframe outcome" where
  "get_expenses_with_ids ok eng = except_return empty_data_with_ids (read_sql_with_ids ok eng)"

text \<open>
  \<^verbatim>\<open>delete_expense\<close>: one flag for the query of \<^verbatim>\<open>get_expenses_with_ids\<close>, one for the
  delete statement. The position is a Python integer. Neither \<^verbatim>\<open>iloc[index]\<close> nor the
  lookup of the label is under a \<^verbatim>\<open>try\<close>: what they raise leaves the function.
\<close>

definition delete_expense :: "bool \<Rightarrow> bool \<Rightarrow> int \<Rightarrow> engine \<Rightarrow> bool outcome" where
  "delete_expense select_ok delete_ok index eng =
     (case get_expenses_with_ids select_ok eng of
        (Inl e, eng1) \<Rightarrow> (Inl e, eng1)
      | (Inr expenses_df, eng1) \<Rightarrow>
          if df_empty expenses_df \<or> index \<ge> len expenses_df then (Inr False, eng1)
          else (case iloc expenses_df index of
                  Inl e \<Rightarrow> (Inl e, eng1)
                | Inr row \<Rightarrow>
                    (case getitem_ID expenses_df row of
                       Inl e \<Rightarrow> (Inl e, eng1)
                     | Inr expense_id \<Rightarrow> delete_expense_by_id delete_ok expense_id eng1)))"

text \<open>
  \<^verbatim>\<open>filter_expenses\<close>. The bounds are optional; a date is never false in Python, so
  \<^verbatim>\<open>if start_date:\<close> tests for \<^verbatim>\<open>None\<close>. \<^verbatim>\<open>pd.to_datetime\<close> turns each date into the
  timestamp of its midnight, which on day numbers changes nothing.
\<close>

definition to_datetime :: "expense dataframe \<Rightarrow> expense dataframe" where
  "to_datetime df = df\<lparr>rows := map (\<lambda>r. r\<lparr>Date := Date r\<rparr>) (rows df)\<rparr>"

definition filter_expenses ::
  "bool \<Rightarrow> date option \<Rightarrow> date option \<Rightarrow> string list option \<Rightarrow> rat option \<Rightarrow> rat option \<Rightarrow>
   engine \<Rightarrow> expense dataframe outcome"
where
  "filter_expenses ok start_date end_date categories min_amount max_amount eng =
     (case get_expenses ok eng of
        (Inl e, eng1) \<Rightarrow> (Inl e, eng1)
      | (Inr expenses_df, eng1) \<Rightarrow>
          if df_empty expenses_df then (Inr expenses_df, eng1)
          else
            let filtered_df = to_datetime expenses_df;
                filtered_df = (case start_date of
                                 None \<Rightarrow> filtered_df
                               | Some sd \<Rightarrow> select_rows (\<lambda>r. Date r \<ge> sd) filtered_df);
                filtered_df = (case end_date of
                                 None \<Rightarrow> filtered_df
                               | Some ed \<Rightarrow> select_rows (\<lambda>r. Date r \<le> ed) filtered_df);
                filtered_df = (case categories of
                                 None \<Rightarrow> filtered_df
                               | Some cs \<Rightarrow>
                                   if cs \<noteq> [] \<and> length cs > 0
                                   then select_rows (\<lambda>r. Category r \<in> set cs) filtered_df
                                   else filtered_df);
                filtered_df = (case min_amount of
                                 None \<Rightarrow> filtered_df
                               | Some lo \<Rightarrow> select_rows (\<lambda>r. Amount r \<ge> lo) filtered_df);
                filtered_df = (case max_amount of
                                 None \<Rightarrow> filtered_df
                               | Some hi \<Rightarrow> select_rows (\<lambda>r. Amount r \<le> hi) filtered_df)
            in (Inr filtered_df, eng1))"




section \<open>An example table\<close>

text \<open>
  Two expenses, entered in the order of their dates: 50 for lunch on day 19723 (2024-01-01)
  and 20 for the bus on the day after.
\<close>

definition scenario :: engine where
  "scenario =
     \<lparr>expenses =
        [\<lparr>row_id = 1, row_date = 19723, row_amount = 50, row_category = ''Food & Dining'',
          row_description = ''Lunch''\<rparr>,
         \<lparr>row_id = 2, row_date = 19724, row_amount = 20, row_category = ''Transportation'',
          row_description = ''Bus''\<rparr>],
      next_id = 3,
      statements = []\<rparr>"

text \<open>The dates the database of the example reads from text.\<close>

definition calendar :: "string \<Rightarrow> date option" where
  "calendar = map_of [(''2024-01-01'', 19723), (''2024-01-02'', 19724)]"

text \<open>A frame of one expense, to replace the table with.\<close>

definition replacement :: "expense dataframe" where
  "replacement =
     \<lparr>columns = [''Date'', ''Amount'', ''Category'', ''Description''],
      rows = [\<lparr>Date = 19725, Amount = 12, Category = ''Other'', Description = ''Stamps''\<rparr>]\<rparr>"

section \<open>The specification's words\<close>

text \<open>
  An argument of \<^verbatim>\<open>addExpense\<close> is missing when it is \<^verbatim>\<open>None\<close>, and a text is empty
  when it has no characters.
\<close>

definition missing_or_empty :: "string option \<Rightarrow> bool" where
  "missing_or_empty x = (x = None \<or> x = Some [])"

definition missing :: "rat option \<Rightarrow> bool" where
  "missing x = (x = None)"

text \<open>
  A row satisfies the filter when it passes every bound that is supplied; the categories
  count as not supplied when they are absent or empty.
\<close>

definition satisfies ::
  "date option \<Rightarrow> date option \<Rightarrow> string list option \<Rightarrow> rat option \<Rightarrow> rat option \<Rightarrow> expense \<Rightarrow> bool"
where
  "satisfies start_date end_date categories min_amount max_amount r =
     ((case start_date of None \<Rightarrow> True | Some sd \<Rightarrow> Date r \<ge> sd)
      \<and> (case end_date of None \<Rightarrow> True | Some ed \<Rightarrow> Date r \<le> ed)
      \<and> (case categories of None \<Rightarrow> True | Some cs \<Rightarrow> cs = [] \<or> Category r \<in> set cs)
      \<and> (case min_amount of None \<Rightarrow> True | Some lo \<Rightarrow> Amount r \<ge> lo)
      \<and> (case max_amount of None \<Rightarrow> True | Some hi \<Rightarrow> Amount r \<le> hi))"


section \<open>What the operations compute\<close>

lemma send_fields:
  "expenses (send st eng) = expenses eng"
  "next_id (send st eng) = next_id eng"
  "statements (send st eng) = statements eng @ [st]"
  by (simp_all add: send_def)

lemma folded_aliases:
  "fold_identifier ''ID'' = ''id''"
  "fold_identifier ''Date'' = ''date''"
  "fold_identifier ''Amount'' = ''amount''"
  "fold_identifier ''Category'' = ''category''"
  "fold_identifier ''Description'' = ''description''"
  by code_simp+

lemma get_expenses_with_ids_eq:
  "get_expenses_with_ids ok eng =
     (Inr (if ok
           then \<lparr>columns = [''id'', ''date'', ''amount'', ''category'', ''description''],
                 rows = map with_id (order_by_date_desc (expenses eng))\<rparr>
           else empty_data_with_ids),
      send SelectWithIds eng)"
  by (simp add: get_expenses_with_ids_def read_sql_with_ids_def except_return_def
      folded_aliases)

lemma load_data_eq:
  "load_data ok eng =
     (Inr (if ok
           then \<lparr>columns = [''Date'', ''Amount'', ''Category'', ''Description''],
                 rows = map without_id (order_by_date_desc (expenses eng))\<rparr>
           else empty_data),
      send SelectAll eng)"
  by (simp add: load_data_def load_data_try_def read_sql_all_def except_return_def
      rename_def rename_dict_def select_columns_def)

lemma delete_expense_by_id_eq:
  "delete_expense_by_id ok expense_id eng =
     (Inr ok,
      if ok
      then (send (Delete expense_id) eng)
             \<lparr>expenses := filter (\<lambda>r. row_id r \<noteq> expense_id) (expenses eng)\<rparr>
      else send (Delete expense_id) eng)"
  by (simp add: delete_expense_by_id_def delete_expense_by_id_try_def exec_delete_def
      except_return_def Let_def send_fields)

lemma length_order_by_date_desc: "length (order_by_date_desc rs) = length rs"
  by (simp add: order_by_date_desc_def)

lemma order_by_date_desc_Nil: "order_by_date_desc rs = [] \<longleftrightarrow> rs = []"
  using length_order_by_date_desc [of rs] by (metis length_0_conv)

lemma order_by_date_desc_scenario:
  "order_by_date_desc (expenses scenario) = rev (expenses scenario)"
  by (simp add: order_by_date_desc_def scenario_def)

lemma check_columns_eq:
  "check_columns expected cols = (if set expected \<subseteq> set cols then Inr () else Inl ValueError)"
  by (induction expected) auto

lemma data_handler_add_expense_eq:
  "data_handler_add_expense to_date ok date amount category description eng =
     (case to_date date of
        None \<Rightarrow> (Inr False, send (Insert date amount category description) eng)
      | Some d \<Rightarrow>
          if ok
          then (Inr True,
                (send (Insert date amount category description) eng)
                  \<lparr>expenses := expenses eng @
                      [\<lparr>row_id = next_id eng, row_date = d, row_amount = amount,
                        row_category = category, row_description = description\<rparr>],
                   next_id := next_id eng + 1\<rparr>)
          else (Inr False, send (Insert date amount category description) eng))"
  by (simp add: data_handler_add_expense_def data_handler_add_expense_try_def exec_insert_def
      except_return_def Let_def send_fields split: option.splits)

lemma data_handler_add_expense_statements:
  "statements (snd (data_handler_add_expense to_date ok date amount category description eng)) =
     statements eng @ [Insert date amount category description]"
  by (simp add: data_handler_add_expense_eq send_fields split: option.splits)

lemma save_data_eq:
  "save_data truncate_ok append_ok df eng =
     (if \<not> set expected_columns \<subseteq> set (columns df) then (Inr False, eng)
      else if \<not> truncate_ok then (Inr False, send Truncate eng)
      else if \<not> append_ok
      then (Inr False,
            (send (Append (map lower (columns df)) (rows df)) (send Truncate eng))
              \<lparr>expenses := []\<rparr>)
      else (Inr True,
            (send (Append (map lower (columns df)) (rows df)) (send Truncate eng))
              \<lparr>expenses := new_rows (next_id eng) (rows df),
               next_id := next_id eng + int (length (rows df))\<rparr>))"
  by (simp add: save_data_def save_data_try_def check_columns_eq exec_truncate_def to_sql_def
      except_return_def Let_def send_fields)

lemma without_id_new_rows: "map without_id (new_rows n recs) = recs"
  by (induction recs arbitrary: n) (simp_all add: without_id_def)

lemma expected_columns_replacement: "set expected_columns \<subseteq> set (columns replacement)"
  by (simp add: expected_columns_def replacement_def)

lemma not_str_eq: "not_str x \<longleftrightarrow> x = None \<or> x = Some []"
  by (simp add: not_str_def split: option.splits)

lemma not_num_eq: "not_num x \<longleftrightarrow> x = None \<or> x = Some 0"
  by (simp add: not_num_def split: option.splits)



lemma get_expenses_eq:
  "get_expenses ok eng =
     (Inr (if ok
           then \<lparr>columns = [''Date'', ''Amount'', ''Category'', ''Description''],
                 rows = map without_id (order_by_date_desc (expenses eng))\<rparr>
           else empty_data),
      send SelectAll eng)"
  by (simp add: get_expenses_def load_data_eq)

lemma to_datetime_id: "to_datetime df = df"
  by (simp add: to_datetime_def)

lemma select_rows_twice:
  "select_rows p (select_rows q df) = select_rows (\<lambda>r. q r \<and> p r) df"
  by (simp add: select_rows_def)

lemma select_rows_all: "select_rows (\<lambda>r. True) df = df"
  by (simp add: select_rows_def)

lemma satisfies_unfold:
  "satisfies start_date end_date categories min_amount max_amount =
     (\<lambda>r. (case start_date of None \<Rightarrow> True | Some sd \<Rightarrow> Date r \<ge> sd)
        \<and> (case end_date of None \<Rightarrow> True | Some ed \<Rightarrow> Date r \<le> ed)
        \<and> (case categories of None \<Rightarrow> True | Some cs \<Rightarrow> cs = [] \<or> Category r \<in> set cs)
        \<and> (case min_amount of None \<Rightarrow> True | Some lo \<Rightarrow> Amount r \<ge> lo)
        \<and> (case max_amount of None \<Rightarrow> True | Some hi \<Rightarrow> Amount r \<le> hi))"
  by (rule ext) (simp add: satisfies_def)

lemma filter_expenses_rows:
  assumes "get_expenses ok eng = (Inr df, eng1)"
  shows "filter_expenses ok start_date end_date categories min_amount max_amount eng =
           (Inr (select_rows (satisfies start_date end_date categories min_amount max_amount) df),
            eng1)"
proof (cases "df_empty df")
  case True
  then have "rows df = []"
    using assms by (auto simp add: get_expenses_def load_data_eq df_empty_def empty_data_def 
       split: if_splits)
  then have "select_rows p df = df" for p
    by (simp add: select_rows_def)
  then show ?thesis
    using True assms by (simp add: filter_expenses_def)
next
  case False
  have 1: "(case start_date of None \<Rightarrow> d | Some sd \<Rightarrow> select_rows (\<lambda>r. Date r \<ge> sd) d) =
           select_rows (\<lambda>r. case start_date of None \<Rightarrow> True | Some sd \<Rightarrow> Date r \<ge> sd) d" for d
    by (simp add: select_rows_all split: option.splits)
  have 2: "(case end_date of None \<Rightarrow> d | Some ed \<Rightarrow> select_rows (\<lambda>r. Date r \<le> ed) d) =
           select_rows (\<lambda>r. case end_date of None \<Rightarrow> True | Some ed \<Rightarrow> Date r \<le> ed) d" for d
    by (simp add: select_rows_all split: option.splits)
  have 3: "(case categories of None \<Rightarrow> d
            | Some cs \<Rightarrow> if cs \<noteq> [] \<and> length cs > 0
                        then select_rows (\<lambda>r. Category r \<in> set cs) d else d) =
           select_rows (\<lambda>r. case categories of None \<Rightarrow> True
                             | Some cs \<Rightarrow> cs = [] \<or> Category r \<in> set cs) d" for d
    by (simp add: select_rows_all split: option.splits)
  have 4: "(case min_amount of None \<Rightarrow> d | Some lo \<Rightarrow> select_rows (\<lambda>r. Amount r \<ge> lo) d) =
           select_rows (\<lambda>r. case min_amount of None \<Rightarrow> True | Some lo \<Rightarrow> Amount r \<ge> lo) d" for d
    by (simp add: select_rows_all split: option.splits)
  have 5: "(case max_amount of None \<Rightarrow> d | Some hi \<Rightarrow> select_rows (\<lambda>r. Amount r \<le> hi) d) =
           select_rows (\<lambda>r. case max_amount of None \<Rightarrow> True | Some hi \<Rightarrow> Amount r \<le> hi) d" for d
    by (simp add: select_rows_all split: option.splits)
  have "select_rows (satisfies start_date end_date categories min_amount max_amount) df =
        select_rows (\<lambda>r. case max_amount of None \<Rightarrow> True | Some hi \<Rightarrow> Amount r \<le> hi)
         (select_rows (\<lambda>r. case min_amount of None \<Rightarrow> True | Some lo \<Rightarrow> Amount r \<ge> lo)
          (select_rows (\<lambda>r. case categories of None \<Rightarrow> True
                             | Some cs \<Rightarrow> cs = [] \<or> Category r \<in> set cs)
           (select_rows (\<lambda>r. case end_date of None \<Rightarrow> True | Some ed \<Rightarrow> Date r \<le> ed)
            (select_rows (\<lambda>r. case start_date of None \<Rightarrow> True | Some sd \<Rightarrow> Date r \<ge> sd) df))))"
    by (simp add: select_rows_twice conj_assoc satisfies_unfold)
  then show ?thesis
    using False assms
    by (simp add: filter_expenses_def to_datetime_id Let_def 1 2 3 4 5)
qed









lemma get_expenses_scenario:
  "get_expenses True scenario =
     (Inr \<lparr>columns = [''Date'', ''Amount'', ''Category'', ''Description''],
            rows = [\<lparr>Date = 19724, Amount = 20, Category = ''Transportation'',
                     Description = ''Bus''\<rparr>,
                    \<lparr>Date = 19723, Amount = 50, Category = ''Food & Dining'',
                     Description = ''Lunch''\<rparr>]\<rparr>,
      send SelectAll scenario)"
  by (simp add: get_expenses_eq order_by_date_desc_scenario) (simp add: scenario_def without_id_def)


lemma filter_expenses_scenario:
  "fst (filter_expenses True None None None (Some 30) None scenario) =
     Inr \<lparr>columns = [''Date'', ''Amount'', ''Category'', ''Description''],
           rows = [\<lparr>Date = 19723, Amount = 50, Category = ''Food & Dining'',
                    Description = ''Lunch''\<rparr>]\<rparr>"
  by (simp add: filter_expenses_rows [OF get_expenses_scenario] select_rows_def satisfies_def)

section \<open>Deleting by display position\<close>

text \<open>
  C1. When the table is empty, or the position is at or beyond the number of rows of the
  listing, \<open>delete_expense\<close> returns \<open>False\<close>, the table is as before, and the only
  statement sent is the query of the listing: no delete is sent. This holds whether or not
  the database serves the query.
\<close>

theorem delete_expense_out_of_range:
  assumes "expenses eng = [] \<or> int (length (expenses eng)) \<le> index"
  shows "delete_expense select_ok delete_ok index eng = (Inr False, send SelectWithIds eng)
       \<and> expenses (snd (delete_expense select_ok delete_ok index eng)) = expenses eng
       \<and> statements (snd (delete_expense select_ok delete_ok index eng)) =
           statements eng @ [SelectWithIds]"
  using assms
  by (auto simp add: delete_expense_def get_expenses_with_ids_eq df_empty_def len_def
      empty_data_with_ids_def length_order_by_date_desc send_fields order_by_date_desc_Nil)

theorem delete_expense_out_of_range_witness:
  "(expenses scenario = [] \<or> int (length (expenses scenario)) \<le> 2)
   \<and> delete_expense True True 2 scenario = (Inr False, send SelectWithIds scenario)
   \<and> expenses (snd (delete_expense True True 2 scenario)) = expenses scenario
   \<and> statements (snd (delete_expense True True 2 scenario)) = [SelectWithIds]"
proof -
  have h: "expenses scenario = [] \<or> int (length (expenses scenario)) \<le> 2"
    by (simp add: scenario_def)
  have s: "statements scenario = []"
    by (simp add: scenario_def)
  show ?thesis
    using h s delete_expense_out_of_range [OF h, of True True] by (simp add: send_fields)
qed

text \<open>
  Below the listing the position is not rejected: \<^verbatim>\<open>iloc\<close> raises, and nothing catches
  it.
\<close>

lemma delete_expense_below_range:
  "delete_expense True True (- 3) scenario = (Inl IndexError, send SelectWithIds scenario)"
  by (simp add: delete_expense_def get_expenses_with_ids_eq df_empty_def len_def iloc_def
      length_order_by_date_desc order_by_date_desc_Nil)
     (simp add: scenario_def)

text \<open>
  A position inside the listing, counted from the start or, when negative, from the end,
  passes the guard and \<^verbatim>\<open>iloc\<close>. The lookup of the label \<^verbatim>\<open>ID\<close> then raises, since the
  labels of the listing are in lower case: \<open>delete_expense\<close> raises \<open>KeyError\<close>, the table
  is as before and no delete is sent, whether or not the database would serve one.
\<close>

lemma delete_expense_in_range:
  assumes "- int (length (expenses eng)) \<le> index" and "index < int (length (expenses eng))"
  shows "delete_expense True delete_ok index eng = (Inl KeyError, send SelectWithIds eng)"
proof -
  have "expenses eng \<noteq> []"
    using assms by auto
  then show ?thesis
    using assms
    by (simp add: delete_expense_def get_expenses_with_ids_eq df_empty_def len_def iloc_def
        getitem_ID_def length_order_by_date_desc order_by_date_desc_Nil)
qed

text \<open>
  C10. On the example table of two rows, \<open>delete_expense\<close> at the position \<open>-1\<close> does
  not delete the row at the end of the listing: it raises \<open>KeyError\<close> at the lookup of the
  label \<^verbatim>\<open>ID\<close>, the two rows stay, and the only statement sent is the query of the
  listing.
\<close>

theorem delete_expense_negative_index_raises:
  "delete_expense True True (- 1) scenario = (Inl KeyError, send SelectWithIds scenario)
   \<and> expenses (snd (delete_expense True True (- 1) scenario)) = expenses scenario
   \<and> statements (snd (delete_expense True True (- 1) scenario)) = [SelectWithIds]"
proof -
  have "- int (length (expenses scenario)) \<le> - 1" and "- 1 < int (length (expenses scenario))"
    by (simp_all add: scenario_def)
  then have "delete_expense True True (- 1) scenario = (Inl KeyError, send SelectWithIds scenario)"
    by (rule delete_expense_in_range)
  moreover have "statements scenario = []"
    by (simp add: scenario_def)
  ultimately show ?thesis
    by (simp add: send_fields)
qed

section \<open>The store\<close>

text \<open>The bodies under \<^verbatim>\<open>try\<close> do raise when the database does not serve them.\<close>

lemma store_bodies_raise:
  "fst (load_data_try False eng) = Inl DatabaseError"
  "fst (read_sql_with_ids False eng) = Inl DatabaseError"
  "fst (data_handler_add_expense_try to_date False date amount category description eng) =
     Inl DatabaseError"
  "fst (delete_expense_by_id_try False expense_id eng) = Inl DatabaseError"
  by (simp_all add: load_data_try_def read_sql_all_def read_sql_with_ids_def
      data_handler_add_expense_try_def exec_insert_def delete_expense_by_id_try_def
      exec_delete_def Let_def split: option.splits)

lemma save_data_body_raises:
  "fst (save_data_try False append_ok replacement eng) = Inl DatabaseError"
  "fst (save_data_try True False replacement eng) = Inl DatabaseError"
  "fst (save_data_try truncate_ok append_ok (replacement\<lparr>columns := []\<rparr>) eng) = Inl ValueError"
  by (simp_all add: save_data_try_def exec_truncate_def to_sql_def check_columns_eq Let_def
      expected_columns_replacement)
     (simp add: expected_columns_def)

text \<open>
  C3. No operation of the store raises, whatever its arguments and whether or not the
  database serves its statements: each returns a value. \<open>load_data\<close> and
  \<open>get_expenses_with_ids\<close> return the listing when the query is served and an empty frame
  when it is not; \<open>data_handler_add_expense\<close>, \<open>delete_expense_by_id\<close> and \<open>save_data\<close>
  return a boolean, which is \<open>False\<close> exactly when a step of theirs failed.
\<close>

theorem store_never_raises:
  "fst (load_data ok eng) =
     Inr (if ok then \<lparr>columns = [''Date'', ''Amount'', ''Category'', ''Description''],
                      rows = map without_id (order_by_date_desc (expenses eng))\<rparr>
          else empty_data)
   \<and> df_empty empty_data
   \<and> fst (get_expenses_with_ids ok eng) =
     Inr (if ok then \<lparr>columns = [''id'', ''date'', ''amount'', ''category'', ''description''],
                      rows = map with_id (order_by_date_desc (expenses eng))\<rparr>
          else empty_data_with_ids)
   \<and> df_empty empty_data_with_ids
   \<and> fst (data_handler_add_expense to_date ok date amount category description eng) =
     Inr (ok \<and> to_date date \<noteq> None)
   \<and> fst (delete_expense_by_id ok expense_id eng) = Inr ok
   \<and> fst (save_data truncate_ok append_ok df eng) =
     Inr (set expected_columns \<subseteq> set (columns df) \<and> truncate_ok \<and> append_ok)"
  by (simp add: load_data_eq get_expenses_with_ids_eq data_handler_add_expense_eq
      delete_expense_by_id_eq save_data_eq df_empty_def empty_data_def empty_data_with_ids_def
      split: option.splits)


text \<open>
  C2, as stated, fails: \<open>save_data\<close> commits the truncation before it appends, so when
  the append fails the call returns \<open>False\<close> and the rows the table had are gone.
\<close>

theorem save_data_not_atomic:
  "fst (save_data True False replacement scenario) = Inr False
   \<and> expenses (snd (save_data True False replacement scenario)) = []
   \<and> expenses scenario \<noteq> []"
  by (simp add: save_data_eq expected_columns_replacement) (simp add: scenario_def)

text \<open>
  C2, amended. \<open>save_data\<close> returns \<open>True\<close> when the frame has the expected columns and
  both the truncation and the append are served, and \<open>False\<close> otherwise. When the column
  check or the truncation fails the table is as before; when the append fails after the
  truncation the table is empty; on success the table holds the records of the frame, in
  their order, under new identifiers.
\<close>

theorem save_data_steps:
  "fst (save_data truncate_ok append_ok df eng) =
     Inr (set expected_columns \<subseteq> set (columns df) \<and> truncate_ok \<and> append_ok)
   \<and> expenses (snd (save_data truncate_ok append_ok df eng)) =
     (if set expected_columns \<subseteq> set (columns df) \<and> truncate_ok
      then if append_ok then new_rows (next_id eng) (rows df) else []
      else expenses eng)
   \<and> map without_id (new_rows (next_id eng) (rows df)) = rows df"
  by (simp add: save_data_eq send_fields without_id_new_rows)

section \<open>Adding an expense\<close>

text \<open>
  C7, as stated, fails at the amount zero: nothing is missing or empty, and yet
  \<open>add_expense\<close> returns \<open>False\<close> and sends nothing.
\<close>

theorem add_expense_zero_amount_rejected:
  "\<not> ((add_expense calendar True (Some ''2024-01-01'') (Some 0) (Some ''Food & Dining'')
         (Some ''Lunch'') scenario = (Inr False, scenario))
       \<longleftrightarrow> (missing_or_empty (Some ''2024-01-01'') \<or> missing (Some 0)
            \<or> missing_or_empty (Some ''Food & Dining'') \<or> missing_or_empty (Some ''Lunch'')))"
  by (simp add: add_expense_def not_num_def missing_or_empty_def missing_def)

text \<open>
  C7, amended. \<open>add_expense\<close> returns \<open>False\<close> with the engine untouched, so without a
  statement sent, exactly when the date, the category or the description is missing or
  empty, or the amount is missing or zero. In every other case it is
  \<open>data_handler_add_expense\<close> on the same date, category and description and the amount
  as a float; it does not look at the sign of the amount.
\<close>

theorem add_expense_validation:
  "(add_expense to_date ok date amount category description eng = (Inr False, eng)
      \<longleftrightarrow> missing_or_empty date \<or> missing amount \<or> amount = Some 0
          \<or> missing_or_empty category \<or> missing_or_empty description)
   \<and> (d \<noteq> [] \<and> a \<noteq> 0 \<and> c \<noteq> [] \<and> s \<noteq> [] \<longrightarrow>
        add_expense to_date ok (Some d) (Some a) (Some c) (Some s) eng =
          data_handler_add_expense to_date ok d (float a) c s eng)"
proof -
  have "statements (snd (data_handler_add_expense to_date ok x y z w eng)) \<noteq> statements eng"
    for x y z w
    by (simp add: data_handler_add_expense_statements)
  then have "data_handler_add_expense to_date ok x y z w eng \<noteq> (r, eng)" for x y z w r
    by (metis snd_conv)
  then show ?thesis
    by (auto simp add: add_expense_def not_str_eq not_num_eq missing_or_empty_def missing_def)
qed

theorem add_expense_validation_witness:
  "(''2024-01-02'' \<noteq> [] \<and> (20 :: rat) \<noteq> 0 \<and> ''Transportation'' \<noteq> [] \<and> ''Taxi'' \<noteq> [])
   \<and> add_expense calendar True (Some ''2024-01-02'') (Some 20) (Some ''Transportation'')
        (Some ''Taxi'') scenario =
      data_handler_add_expense calendar True ''2024-01-02'' (float 20) ''Transportation'' ''Taxi''
        scenario
   \<and> fst (data_handler_add_expense calendar True ''2024-01-02'' (float 20) ''Transportation''
        ''Taxi'' scenario) = Inr True"
  using add_expense_validation [of calendar True "Some ''2024-01-02''" "Some 20"
      "Some ''Transportation''" "Some ''Taxi''" scenario "''2024-01-02''" 20 "''Transportation''"
      "''Taxi''"]
  by (simp add: data_handler_add_expense_eq calendar_def)

text \<open>
  C9. With the amount zero \<open>add_expense\<close> returns \<open>False\<close> and leaves the engine
  untouched, whatever the other arguments. A negative amount, with the other arguments
  present, goes to the store as it is: the insert statement carries it.
\<close>

theorem add_expense_zero_and_negative:
  "add_expense to_date ok date (Some 0) category description eng = (Inr False, eng)
   \<and> (a < 0 \<and> d \<noteq> [] \<and> c \<noteq> [] \<and> s \<noteq> [] \<longrightarrow>
        add_expense to_date ok (Some d) (Some a) (Some c) (Some s) eng =
          data_handler_add_expense to_date ok d a c s eng
        \<and> statements (snd (add_expense to_date ok (Some d) (Some a) (Some c) (Some s) eng)) =
          statements eng @ [Insert d a c s])"
  by (simp add: add_expense_def not_str_def not_num_def float_def
      data_handler_add_expense_statements)

theorem add_expense_zero_and_negative_witness:
  "add_expense calendar True (Some ''2024-01-02'') (Some 0) (Some ''Other'') (Some ''Refund'')
     scenario = (Inr False, scenario)
   \<and> ((- 3 :: rat) < 0 \<and> ''2024-01-02'' \<noteq> [] \<and> ''Other'' \<noteq> [] \<and> ''Refund'' \<noteq> [])
   \<and> add_expense calendar True (Some ''2024-01-02'') (Some (- 3)) (Some ''Other'') (Some ''Refund'')
        scenario =
      (Inr True,
       \<lparr>expenses = expenses scenario @
          [\<lparr>row_id = 3, row_date = 19724, row_amount = - 3, row_category = ''Other'',
            row_description = ''Refund''\<rparr>],
        next_id = 4,
        statements = [Insert ''2024-01-02'' (- 3) ''Other'' ''Refund'']\<rparr>)"
  using add_expense_zero_and_negative [of calendar True "Some ''2024-01-02''" "Some ''Other''"
      "Some ''Refund''" scenario "- 3" "''2024-01-02''" "''Other''" "''Refund''"]
  by (simp add: data_handler_add_expense_eq calendar_def send_def) (simp add: scenario_def)

section \<open>Filtering and totals\<close>

text \<open>
  C5. For every table and every choice of bounds, supplied or not, the frame that
  \<open>filter_expenses\<close> returns is the frame of \<open>get_expenses\<close> with its rows restricted,
  in their order, to those that satisfy every supplied bound: the date at or after the
  start, at or before the end, the category among the given ones unless none or an empty
  list is given, the amount at or above the minimum and at or below the maximum.
\<close>

theorem filter_expenses_conjunction:
  "\<exists>df eng1.
     get_expenses ok eng = (Inr df, eng1)
     \<and> filter_expenses ok start_date end_date categories min_amount max_amount eng =
         (Inr (df\<lparr>rows := filter (satisfies start_date end_date categories min_amount max_amount)
                            (rows df)\<rparr>), eng1)"
  using filter_expenses_rows [OF get_expenses_eq]
  by (simp add: get_expenses_eq select_rows_def)

text \<open>
  C8. With no bound at all, and also with an empty list of categories, \<open>filter_expenses\<close>
  is \<open>get_expenses\<close>: the same frame, columns and rows, and the same engine afterwards.
  On an empty table it is \<open>get_expenses\<close> whatever the bounds.
\<close>

theorem filter_expenses_no_bounds:
  "filter_expenses ok None None None None None eng = get_expenses ok eng
   \<and> filter_expenses ok None None (Some []) None None eng = get_expenses ok eng
   \<and> filter_expenses ok start_date end_date categories min_amount max_amount
       (eng\<lparr>expenses := []\<rparr>) = get_expenses ok (eng\<lparr>expenses := []\<rparr>)"
proof -
  have none: "satisfies None None None None None = (\<lambda>r. True)"
    and nil: "satisfies None None (Some []) None None = (\<lambda>r. True)"
    by (simp_all add: satisfies_unfold)
  have "select_rows p df = df" if "rows df = []" for p and df :: "expense dataframe"
    using that by (simp add: select_rows_def)
  then show ?thesis
    using none nil
    by (simp add: filter_expenses_rows [OF get_expenses_eq] select_rows_all get_expenses_eq
        order_by_date_desc_def empty_data_def)
qed





end
